theory Spec2Isabelle
  imports Complex_Main
begin

section \<open>The JavaScript host\<close>

text \<open>
  The services read three things that are not arguments: the global random source
  (\<open>Math.random()\<close>), the clock (\<open>new Date()\<close>) and the time zone of the server, which
  \<open>getDate\<close> and \<open>setDate\<close> consult. They are made explicit as a record. A call reads
  the clock at one instant: every \<open>new Date()\<close> of a call sees the same \<open>now\<close>.
  JavaScript numbers are taken as real numbers (no floating-point rounding);
  integer-valued numbers (the loop counter, time values, volumes) are \<open>int\<close>.
\<close>

datatype js_error = RangeError | TypeError | AxiosError string

record chat_request =
  url :: string
  model :: string
  messages :: "(string \<times> string) list"  \<comment> \<open>each message as (role, content)\<close>
  max_tokens :: int
  temperature :: real
  authorization :: string
  contentType :: string

record chat_response =
  choices :: "string list"  \<comment> \<open>\<open>response.data.choices[k].message.content\<close>\<close>

record host =
  random :: "nat \<Rightarrow> real"  \<comment> \<open>the value of the k-th call of \<open>Math.random()\<close>\<close>
  now :: int  \<comment> \<open>the time value of \<open>new Date()\<close>, milliseconds since the epoch (UTC)\<close>
  LocalTZA :: "int \<Rightarrow> bool \<Rightarrow> int"
    \<comment> \<open>ECMAScript's \<open>LocalTZA(t, isUTC)\<close>: the offset of local time from UTC in
        milliseconds, at the UTC instant \<open>t\<close> or (\<open>isUTC\<close> false) at the local time \<open>t\<close>\<close>
  OPENAI_API_KEY :: "string option"  \<comment> \<open>\<open>process.env.OPENAI_API_KEY\<close>\<close>
  post :: "chat_request \<Rightarrow> js_error + chat_response"  \<comment> \<open>the outcome of \<open>axios.post\<close>\<close>

subsection \<open>Date objects\<close>

text \<open>
  A Date object holds a time value: an integer number of milliseconds, or NaN
  (\<open>None\<close>) for an invalid date. The definitions follow the abstract operations of
  ECMAScript (Day, TimeWithinDay, MakeDate, TimeClip, LocalTime, UTC).
\<close>

definition msPerDay :: int where
  "msPerDay = 86400000"

definition maxTime :: int where
  "maxTime = 8640000000000000"

definition Day :: "int \<Rightarrow> int" where
  "Day t = t div msPerDay"

definition TimeWithinDay :: "int \<Rightarrow> int" where
  "TimeWithinDay t = t mod msPerDay"

definition MakeDate :: "int \<Rightarrow> int \<Rightarrow> int" where
  "MakeDate day time = day * msPerDay + time"

definition TimeClip :: "int \<Rightarrow> int option" where
  "TimeClip t = (if \<bar>t\<bar> > maxTime then None else Some t)"

definition LocalTime :: "host \<Rightarrow> int \<Rightarrow> int" where
  "LocalTime h t = t + LocalTZA h t True"

definition UTC :: "host \<Rightarrow> int \<Rightarrow> int" where
  "UTC h t = t - LocalTZA h t False"

definition DateFromTime :: "int \<Rightarrow> int" where
  \<comment> \<open>the day of the month, 1 to 31, in the proleptic Gregorian calendar\<close>
  "DateFromTime t =
     (let z = Day t + 719468;
          doe = z mod 146097;
          yoe = (doe - doe div 1460 + doe div 36524 - doe div 146096) div 365;
          doy = doe - (365 * yoe + yoe div 4 - yoe div 100);
          mp = (5 * doy + 2) div 153
      in doy - (153 * mp + 2) div 5 + 1)"

definition MakeDayInMonth :: "int \<Rightarrow> int \<Rightarrow> int" where
  \<comment> \<open>\<open>MakeDay(YearFromTime(t), MonthFromTime(t), dt)\<close>: the day number of the first day
      of the month of \<open>t\<close>, plus \<open>dt - 1\<close>; \<open>dt\<close> may be zero or negative\<close>
  "MakeDayInMonth t dt = (Day t - (DateFromTime t - 1)) + dt - 1"

definition newDate :: "host \<Rightarrow> int option" where
  "newDate h = Some (now h)"

definition getDate :: "host \<Rightarrow> int option \<Rightarrow> int option" where
  "getDate h d = (case d of None \<Rightarrow> None | Some t \<Rightarrow> Some (DateFromTime (LocalTime h t)))"

definition setDate :: "host \<Rightarrow> int option \<Rightarrow> int option \<Rightarrow> int option" where
  "setDate h d dt =
     (case d of
        None \<Rightarrow> None
      | Some t \<Rightarrow>
          (case dt of
             None \<Rightarrow> None
           | Some n \<Rightarrow>
               (let tl = LocalTime h t;
                    newDate = MakeDate (MakeDayInMonth tl n) (TimeWithinDay tl)
                in TimeClip (UTC h newDate))))"

definition toISOString :: "int option \<Rightarrow> js_error + int" where
  \<comment> \<open>\<open>toISOString\<close> throws a RangeError on an invalid date; otherwise it prints the time
      value in UTC as \<open>YYYY-MM-DDTHH:mm:ss.sssZ\<close>. The text is kept as the time value it
      prints.\<close>
  "toISOString d = (case d of None \<Rightarrow> Inl RangeError | Some t \<Rightarrow> Inr t)"

definition datePart :: "int \<Rightarrow> int" where
  \<comment> \<open>\<open>.split('T')[0]\<close> of an ISO text: the UTC calendar date \<open>YYYY-MM-DD\<close>, kept as
      its day number (days since 1970-01-01)\<close>
  "datePart isoText = Day isoText"

subsection \<open>Numbers in template literals\<close>

fun digits :: "nat \<Rightarrow> string" where
  "digits n = (if n < 10 then [''0123456789'' ! n]
               else digits (n div 10) @ [''0123456789'' ! (n mod 10)])"

definition numberToString :: "int \<Rightarrow> string" where
  \<comment> \<open>\<open>`${n}`\<close> for an integer of magnitude below \<open>2^53\<close>: its decimal digits\<close>
  "numberToString n = (if n < 0 then ''-'' @ digits (nat (- n)) else digits (nat n))"

section \<open>marketService: getPriceHistory\<close>

record sample =
  date :: int
  price :: real
  volume :: int

record price_history =
  crop :: string
  history :: "sample list"
  period :: string

text \<open>
  The variables the loop changes: \<open>basePrice\<close>, the array \<open>history\<close> (here \<open>hist\<close>), and
  the number of values taken from \<open>Math.random()\<close> so far.
\<close>

record vars =
  basePrice :: real
  hist :: "sample list"
  drawn :: nat

definition startingPrice :: "host \<Rightarrow> real" where
  \<comment> \<open>\<open>Math.floor(Math.random() * 100) + 100\<close>, the first draw\<close>
  "startingPrice h = of_int (\<lfloor>random h 0 * 100\<rfloor> + 100)"

definition iterationDate :: "host \<Rightarrow> int \<Rightarrow> int option" where
  \<comment> \<open>\<open>const date = new Date(); date.setDate(date.getDate() - i)\<close>\<close>
  "iterationDate h i =
     (let date = newDate h
      in setDate h date (map_option (\<lambda>n. n - i) (getDate h date)))"

definition body :: "host \<Rightarrow> int \<Rightarrow> vars \<Rightarrow> js_error + vars" where
  "body h i s =
     (let date = iterationDate h i;
          b = basePrice s + (random h (drawn s) - 1 / 2) * 10;
          b = max 50 (min 300 b)
      in case toISOString date of
           Inl e \<Rightarrow> Inl e
         | Inr isoText \<Rightarrow>
             Inr \<lparr>basePrice = b,
                  hist = hist s @
                    [\<lparr>date = datePart isoText,
                      price = of_int (round (b * 100)) / 100,
                      volume = \<lfloor>random h (drawn s + 1) * 5000\<rfloor> + 500\<rparr>],
                  drawn = drawn s + 2\<rparr>)"

function loop :: "host \<Rightarrow> int \<Rightarrow> vars \<Rightarrow> js_error + vars" where
  "loop h i s =
     (if i \<ge> 0 then (case body h i s of Inl e \<Rightarrow> Inl e | Inr s' \<Rightarrow> loop h (i - 1) s')
      else Inr s)"
  by pat_completeness auto
termination
  by (relation "measure (\<lambda>(h, i, s). nat (i + 1))") auto

declare loop.simps [simp del]

definition getPriceHistory :: "host \<Rightarrow> string \<Rightarrow> int option \<Rightarrow> js_error + price_history" where
  "getPriceHistory h cropArg daysArg =
     (let days = (case daysArg of None \<Rightarrow> 30 | Some d \<Rightarrow> d);
          s0 = \<lparr>basePrice = startingPrice h, hist = [], drawn = 1\<rparr>
      in case loop h days s0 of
           Inl e \<Rightarrow> Inl e
         | Inr s \<Rightarrow> Inr \<lparr>crop = cropArg, history = hist s, period = numberToString days @ '' days''\<rparr>)"

subsection \<open>The walk as the specification words it\<close>



definition twoDecimals :: "real \<Rightarrow> real" where
  \<comment> \<open>\<open>Math.round(x * 100) / 100\<close>\<close>
  "twoDecimals x = of_int (round (x * 100)) / 100"

subsection \<open>The value of basePrice after n iterations\<close>

primrec basePriceAfter :: "host \<Rightarrow> real \<Rightarrow> nat \<Rightarrow> nat \<Rightarrow> real" where
  \<comment> \<open>from the value \<open>b\<close>, with \<open>d\<close> values already taken from \<open>Math.random()\<close>\<close>
  "basePriceAfter h b d 0 = b"
| "basePriceAfter h b d (Suc n) =
     max 50 (min 300 (basePriceAfter h b d n + (random h (d + 2 * n) - 1 / 2) * 10))"


definition sampleAt :: "host \<Rightarrow> int \<Rightarrow> real \<Rightarrow> nat \<Rightarrow> nat \<Rightarrow> sample" where
  \<comment> \<open>the sample pushed by iteration \<open>k\<close> (counted from 0) of a loop that starts at
      \<open>i\<close> with \<open>basePrice = b\<close> and \<open>d\<close> values drawn\<close>
  "sampleAt h i b d k =
     \<lparr>date = Day (the (iterationDate h (i - int k))),
      price = twoDecimals (basePriceAfter h b d (Suc k)),
      volume = \<lfloor>random h (d + 2 * k + 1) * 5000\<rfloor> + 500\<rparr>"

section \<open>aiService: getAIAdvice and getAITimingAdvice\<close>

record advice_response =
  a_crop :: string  \<comment> \<open>\<open>crop\<close>\<close>
  a_location :: string  \<comment> \<open>\<open>location\<close>\<close>
  a_advice :: string  \<comment> \<open>\<open>advice\<close>\<close>
  a_timestamp :: int  \<comment> \<open>\<open>timestamp\<close>\<close>
  a_note :: "string option"  \<comment> \<open>\<open>note\<close>, absent from a live answer\<close>

record timing_response =
  t_recommendation :: string  \<comment> \<open>\<open>recommendation\<close>\<close>
  t_timestamp :: int  \<comment> \<open>\<open>timestamp\<close>\<close>
  t_marketIndicator :: string  \<comment> \<open>\<open>marketIndicator\<close>\<close>
  t_note :: "string option"  \<comment> \<open>\<open>note\<close>, absent from a live answer\<close>

definition bearer :: "host \<Rightarrow> string" where
  \<comment> \<open>\<open>`Bearer ${process.env.OPENAI_API_KEY}`\<close>\<close>
  "bearer h = ''Bearer '' @ (case OPENAI_API_KEY h of None \<Rightarrow> ''undefined'' | Some k \<Rightarrow> k)"

definition firstContent :: "chat_response \<Rightarrow> js_error + string" where
  \<comment> \<open>\<open>response.data.choices[0].message.content\<close>: a TypeError when there is no first
      choice\<close>
  "firstContent response = (case choices response of [] \<Rightarrow> Inl TypeError | c # _ \<Rightarrow> Inr c)"

definition advicePrompt :: "string \<Rightarrow> string \<Rightarrow> string" where
  "advicePrompt cropArg locationArg =
     ''Provide farming advice for growing '' @ cropArg @ '' in '' @ locationArg @
     ''. Include information about:\<newline>'' @
     ''    - Best planting time\<newline>'' @
     ''    - Soil requirements\<newline>'' @
     ''    - Water needs\<newline>'' @
     ''    - Common pests and diseases\<newline>'' @
     ''    - Expected yield\<newline>'' @
     ''    - Market tips\<newline>'' @
     ''\<newline>'' @
     ''    Keep the response concise but informative.''"

definition adviceRequest :: "host \<Rightarrow> string \<Rightarrow> string \<Rightarrow> chat_request" where
  "adviceRequest h cropArg locationArg =
     \<lparr>url = ''https://api.openai.com/v1/chat/completions'',
      model = ''gpt-3.5-turbo'',
      messages =
        [(''system'', ''You are an expert agricultural advisor providing practical farming advice.''),
         (''user'', advicePrompt cropArg locationArg)],
      max_tokens = 500,
      temperature = 7 / 10,
      authorization = bearer h,
      contentType = ''application/json''\<rparr>"

definition mockAdvice :: "string \<Rightarrow> string \<Rightarrow> string" where
  "mockAdvice cropArg locationArg =
     ''Mock advice: For '' @ cropArg @ '' in '' @ locationArg @
     '', ensure proper irrigation and soil testing. Consult local agricultural extension services for specific recommendations.''"

definition fallbackNote :: string where
  "fallbackNote = ''This is a fallback response due to API unavailability''"

definition getAIAdvice :: "host \<Rightarrow> string \<Rightarrow> string \<Rightarrow> js_error + advice_response" where
  "getAIAdvice h cropArg locationArg =
     (let try =
            (case post h (adviceRequest h cropArg locationArg) of
               Inl e \<Rightarrow> Inl e
             | Inr response \<Rightarrow>
                 (case firstContent response of
                    Inl e \<Rightarrow> Inl e
                  | Inr content \<Rightarrow>
                      (case toISOString (newDate h) of
                         Inl e \<Rightarrow> Inl e
                       | Inr ts \<Rightarrow>
                           Inr \<lparr>a_crop = cropArg, a_location = locationArg, a_advice = content,
                                a_timestamp = ts, a_note = None\<rparr>)))
      in case try of
           Inr r \<Rightarrow> Inr r
         | Inl error \<Rightarrow>
             (case toISOString (newDate h) of
                Inl e \<Rightarrow> Inl e
              | Inr ts \<Rightarrow>
                  Inr \<lparr>a_crop = cropArg, a_location = locationArg,
                       a_advice = mockAdvice cropArg locationArg,
                       a_timestamp = ts, a_note = Some fallbackNote\<rparr>))"

definition timingPrompt :: string where
  "timingPrompt =
     ''Based on current market trends and seasonal factors, provide advice on the best timing for buyers to purchase agricultural products. Consider:\<newline>'' @
     ''    - Current market prices\<newline>'' @
     ''    - Seasonal availability\<newline>'' @
     ''    - Storage costs\<newline>'' @
     ''    - Demand patterns\<newline>'' @
     ''\<newline>'' @
     ''    Give a clear recommendation on whether it'' @ [CHR 0x27] @ ''s a good time to buy now or wait.''"

definition timingRequest :: "host \<Rightarrow> chat_request" where
  "timingRequest h =
     \<lparr>url = ''https://api.openai.com/v1/chat/completions'',
      model = ''gpt-3.5-turbo'',
      messages =
        [(''system'', ''You are an agricultural market analyst providing timing advice for buyers.''),
         (''user'', timingPrompt)],
      max_tokens = 300,
      temperature = 6 / 10,
      authorization = bearer h,
      contentType = ''application/json''\<rparr>"

definition mockTiming :: string where
  "mockTiming = ''Mock timing advice: Current market conditions suggest waiting 2-3 weeks for potentially better prices. Monitor local supply and demand.''"

definition getAITimingAdvice :: "host \<Rightarrow> js_error + timing_response" where
  "getAITimingAdvice h =
     (let try =
            (case post h (timingRequest h) of
               Inl e \<Rightarrow> Inl e
             | Inr response \<Rightarrow>
                 (case firstContent response of
                    Inl e \<Rightarrow> Inl e
                  | Inr content \<Rightarrow>
                      (case toISOString (newDate h) of
                         Inl e \<Rightarrow> Inl e
                       | Inr ts \<Rightarrow>
                           Inr \<lparr>t_recommendation = content, t_timestamp = ts,
                                t_marketIndicator = (if random h 0 > 1 / 2 then ''BUY'' else ''WAIT''),
                                t_note = None\<rparr>)))
      in case try of
           Inr r \<Rightarrow> Inr r
         | Inl error \<Rightarrow>
             (case toISOString (newDate h) of
                Inl e \<Rightarrow> Inl e
              | Inr ts \<Rightarrow>
                  Inr \<lparr>t_recommendation = mockTiming, t_timestamp = ts,
                       t_marketIndicator = ''WAIT'', t_note = Some fallbackNote\<rparr>))"

section \<open>Hosts used in the examples\<close>

definition utcZone :: "int \<Rightarrow> bool \<Rightarrow> int" where
  \<comment> \<open>a server on UTC\<close>
  "utcZone t isUTC = 0"



definition unreachable :: "chat_request \<Rightarrow> js_error + chat_response" where
  "unreachable request = Inl (AxiosError ''Network Error'')"

definition hostWith :: "(nat \<Rightarrow> real) \<Rightarrow> int \<Rightarrow> (int \<Rightarrow> bool \<Rightarrow> int) \<Rightarrow> host" where
  "hostWith r t z = \<lparr>random = r, now = t, LocalTZA = z, OPENAI_API_KEY = None, post = unreachable\<rparr>"

definition cycle :: "real list \<Rightarrow> nat \<Rightarrow> real" where
  \<comment> \<open>a random source that repeats the given values\<close>
  "cycle xs k = xs ! (k mod length xs)"


definition lateChange :: "nat \<Rightarrow> real" where
  \<comment> \<open>agrees with the constant source 1/2 on the first five draws only\<close>
  "lateChange k = (if k < 5 then 1 / 2 else 3 / 4)"

section \<open>Properties of the date arithmetic\<close>

text \<open>
  \<open>setDate(getDate() - i)\<close> moves the local time back by \<open>i\<close> whole days and keeps the
  local time of day; the result is converted back to UTC with the offset in force at
  that local time.
\<close>

lemma iterationDate_eq:
  "iterationDate h i = TimeClip (UTC h (LocalTime h (now h) - i * msPerDay))"
proof -
  have "(t div m - (D - 1) + (D - i) - 1) * m + t mod m = t - i * m" for t m D :: int
    by (simp add: algebra_simps)
  then show ?thesis
    by (simp add: iterationDate_def newDate_def getDate_def setDate_def MakeDate_def
        MakeDayInMonth_def TimeWithinDay_def Day_def Let_def)
qed

lemma iterationDate_same_offset:
  assumes off: "LocalTZA h (LocalTime h (now h) - i * msPerDay) False = LocalTZA h (now h) True"
    and lo: "- maxTime \<le> now h - i * msPerDay"
    and hi: "now h - i * msPerDay \<le> maxTime"
  shows "iterationDate h i = Some (now h - i * msPerDay)"
proof -
  have "UTC h (LocalTime h (now h) - i * msPerDay) = now h - i * msPerDay"
    unfolding UTC_def off by (simp add: LocalTime_def)
  with lo hi show ?thesis
    by (simp add: iterationDate_eq TimeClip_def)
qed



section \<open>Properties of the loop\<close>

lemma basePriceAfter_shift:
  "basePriceAfter h b d (Suc n) =
     basePriceAfter h (max 50 (min 300 (b + (random h d - 1 / 2) * 10))) (d + 2) n"
  by (induction n) simp_all

lemma basePriceAfter_bounds:
  "50 \<le> basePriceAfter h b d (Suc n) \<and> basePriceAfter h b d (Suc n) \<le> 300"
  by simp

lemma twoDecimals_bounds:
  assumes "50 \<le> a" "a \<le> 300"
  shows "50 \<le> twoDecimals a \<and> twoDecimals a \<le> 300"
proof -
  have "round (5000 :: real) \<le> round (a * 100)"
    by (rule round_mono) (use assms in simp)
  moreover have "round (a * 100) \<le> round (30000 :: real)"
    by (rule round_mono) (use assms in simp)
  ultimately have "5000 \<le> round (a * 100)" "round (a * 100) \<le> 30000" by simp_all
  then have "(5000 :: real) \<le> of_int (round (a * 100))" "of_int (round (a * 100)) \<le> (30000 :: real)"
    by linarith+
  then show ?thesis by (simp add: twoDecimals_def)
qed


lemma body_Inr:
  assumes "body h i s = Inr s'"
  shows "s' = \<lparr>basePrice = basePriceAfter h (basePrice s) (drawn s) 1,
               hist = hist s @ [sampleAt h i (basePrice s) (drawn s) 0],
               drawn = drawn s + 2\<rparr>"
  using assms
  by (auto simp: body_def Let_def toISOString_def datePart_def sampleAt_def twoDecimals_def
      split: option.splits)

lemma body_total: "iterationDate h i \<noteq> None \<Longrightarrow> \<exists>s'. body h i s = Inr s'"
  by (auto simp: body_def Let_def toISOString_def split: option.splits)

lemma upt_map_shift: "map f [0..<Suc n] = f 0 # map (\<lambda>k. f (Suc k)) [0..<n]"
  by (simp add: upt_conv_Cons map_Suc_upt [symmetric] del: upt_Suc)

lemma loop_Inr:
  "loop h i s = Inr s' \<Longrightarrow>
     hist s' = hist s @ map (sampleAt h i (basePrice s) (drawn s)) [0..<nat (i + 1)] \<and>
     basePrice s' = basePriceAfter h (basePrice s) (drawn s) (nat (i + 1)) \<and>
     drawn s' = drawn s + 2 * nat (i + 1)"
proof (induction h i s rule: loop.induct)
  case (1 h i s)
  show ?case
  proof (cases "i \<ge> 0")
    case False
    with "1.prems" show ?thesis by (simp add: loop.simps)
  next
    case True
    from True "1.prems" obtain s1
      where b: "body h i s = Inr s1" and l: "loop h (i - 1) s1 = Inr s'"
      by (auto simp: loop.simps [of h i s] split: sum.splits)
    note ih = "1.IH" [OF True b l]
    note s1 = body_Inr [OF b]
    have n: "nat (i + 1) = Suc (nat i)" "nat (i - 1 + 1) = nat i"
      using True by auto
    have sh: "sampleAt h (i - 1) (basePrice s1) (drawn s1) k =
                sampleAt h i (basePrice s) (drawn s) (Suc k)" for k
      unfolding sampleAt_def basePriceAfter_shift [of h "basePrice s"]
      by (simp add: s1 algebra_simps)
    have b1: "basePrice s1 = max 50 (min 300 (basePrice s + (random h (drawn s) - 1 / 2) * 10))"
      and d1: "drawn s1 = drawn s + 2"
      and h1: "hist s1 = hist s @ [sampleAt h i (basePrice s) (drawn s) 0]"
      by (simp_all add: s1)
    have "hist s' = hist s @ map (sampleAt h i (basePrice s) (drawn s)) [0..<Suc (nat i)]"
      using ih unfolding n upt_map_shift sh by (simp add: h1)
    moreover have "basePrice s' = basePriceAfter h (basePrice s) (drawn s) (Suc (nat i))"
      using ih unfolding n basePriceAfter_shift [of h "basePrice s"] b1 d1 by simp
    moreover have "drawn s' = drawn s + 2 * Suc (nat i)"
      using ih unfolding n d1 by simp
    ultimately show ?thesis unfolding n by simp
  qed
qed

lemma loop_returns:
  "(\<forall>j. 0 \<le> j \<and> j \<le> i \<longrightarrow> iterationDate h j \<noteq> None) \<Longrightarrow> \<exists>s'. loop h i s = Inr s'"
proof (induction h i s rule: loop.induct)
  case (1 h i s)
  show ?case
  proof (cases "i \<ge> 0")
    case False
    then show ?thesis by (simp add: loop.simps)
  next
    case True
    with "1.prems" have "iterationDate h i \<noteq> None" by simp
    then obtain s1 where b: "body h i s = Inr s1"
      using body_total by blast
    from "1.prems" have "\<forall>j. 0 \<le> j \<and> j \<le> i - 1 \<longrightarrow> iterationDate h j \<noteq> None"
      by simp
    from "1.IH" [OF True b this] obtain s' where "loop h (i - 1) s1 = Inr s'"
      by blast
    with True b show ?thesis by (simp add: loop.simps [of h i s])
  qed
qed

lemma loop_throws_at_once:
  "0 \<le> i \<Longrightarrow> iterationDate h i = None \<Longrightarrow> loop h i s = Inl RangeError"
  by (simp add: loop.simps [of h i s] body_def Let_def toISOString_def)

text \<open>
  What a call returns, when it returns: sample \<open>k\<close> is dated by iteration
  \<open>i = days - k\<close>, its price is the rounded value of \<open>basePrice\<close> after \<open>k + 1\<close>
  iterations, and its volume comes from draw \<open>2 k + 2\<close>.
\<close>

lemma getPriceHistory_Inr:
  assumes "getPriceHistory h c (Some days) = Inr r"
  shows "r = \<lparr>crop = c,
              history = map (sampleAt h days (startingPrice h) 1) [0..<nat (days + 1)],
              period = numberToString days @ '' days''\<rparr>"
proof -
  from assms obtain s
    where l: "loop h days \<lparr>basePrice = startingPrice h, hist = [], drawn = 1\<rparr> = Inr s"
      and r: "r = \<lparr>crop = c, history = hist s, period = numberToString days @ '' days''\<rparr>"
    by (auto simp: getPriceHistory_def Let_def split: sum.splits)
  from loop_Inr [OF l] show ?thesis by (simp add: r)
qed

lemma getPriceHistory_returns:
  assumes "\<forall>i. 0 \<le> i \<and> i \<le> days \<longrightarrow> iterationDate h i \<noteq> None"
  shows "\<exists>r. getPriceHistory h c (Some days) = Inr r"
proof -
  from loop_returns [OF assms] obtain s
    where "loop h days \<lparr>basePrice = startingPrice h, hist = [], drawn = 1\<rparr> = Inr s"
    by blast
  then show ?thesis by (simp add: getPriceHistory_def Let_def)
qed



lemma fixed_offset_dates:
  assumes "0 \<le> i" "i \<le> 100"
  shows "iterationDate (hostWith r 1711927800000 utcZone) i = Some (1711927800000 - i * msPerDay)"
proof -
  let ?h = "hostWith r 1711927800000 utcZone"
  have n: "now ?h = 1711927800000" and z: "LocalTZA ?h = utcZone"
    by (simp_all add: hostWith_def)
  have "iterationDate ?h i = Some (now ?h - i * msPerDay)"
    using assms by (intro iterationDate_same_offset) (simp_all add: n z utcZone_def msPerDay_def maxTime_def)
  then show ?thesis by (simp add: n)
qed

section \<open>The price history\<close>

text \<open>
  C1. Every price in a history that getPriceHistory returns lies in the closed interval
  from 50 to 300, whatever the crop, the number of days and the values drawn: the
  accumulator is clamped before each sample is pushed, and rounding to two decimals
  cannot leave the interval because both bounds are two-decimal numbers.
\<close>

theorem history_prices_within_bounds:
  assumes "getPriceHistory h c (Some days) = Inr r" and "x \<in> set (history r)"
  shows "50 \<le> price x \<and> price x \<le> 300"
proof -
  from assms obtain k where "x = sampleAt h days (startingPrice h) 1 k"
    by (auto simp: getPriceHistory_Inr [OF assms(1)])
  then have "price x = twoDecimals (basePriceAfter h (startingPrice h) 1 (Suc k))"
    by (simp add: sampleAt_def)
  with twoDecimals_bounds basePriceAfter_bounds show ?thesis by metis
qed

theorem history_prices_within_bounds_witness:
  "getPriceHistory (hostWith (cycle [1 / 2, 9 / 10, 1 / 4]) 1711927800000 utcZone) ''Maize'' (Some 1) =
     Inr \<lparr>crop = ''Maize'',
          history = [\<lparr>date = 19812, price = 154, volume = 1750\<rparr>,
                     \<lparr>date = 19813, price = 154, volume = 5000\<rparr>],
          period = ''1 days''\<rparr> \<and>
   50 \<le> price \<lparr>date = 19812, price = 154, volume = 1750\<rparr> \<and>
   price \<lparr>date = 19812, price = 154, volume = 1750\<rparr> \<le> 300"
proof -
  have e: "getPriceHistory (hostWith (cycle [1 / 2, 9 / 10, 1 / 4]) 1711927800000 utcZone) ''Maize'' (Some 1) =
     Inr \<lparr>crop = ''Maize'',
          history = [\<lparr>date = 19812, price = 154, volume = 1750\<rparr>,
                     \<lparr>date = 19813, price = 154, volume = 5000\<rparr>],
          period = ''1 days''\<rparr>"
    by code_simp
  have "\<lparr>date = 19812, price = 154, volume = 1750\<rparr> \<in>
        set (history \<lparr>crop = ''Maize'',
          history = [\<lparr>date = 19812, price = 154, volume = 1750\<rparr>,
                     \<lparr>date = 19813, price = 154, volume = 5000\<rparr>],
          period = ''1 days''\<rparr>)"
    by simp
  from history_prices_within_bounds [OF e this] e show ?thesis by blast
qed

text \<open>
  C2, as the code has it. A Date holds time values up to 8.64e15 milliseconds either side
  of the epoch; \<open>setDate\<close> turns anything beyond into an invalid date, on which
  \<open>toISOString\<close> throws. So a call whose oldest day lies before the range of Date is
  rejected with a RangeError in its first iteration, and returns no history.
\<close>

theorem huge_days_counterexample:
  "getPriceHistory (hostWith (cycle [1 / 2]) 1711927800000 utcZone) ''Maize'' (Some 200000000) =
     Inl RangeError"
  by code_simp

text \<open>
  C2, amended. For every crop and every integer \<open>days \<ge> 0\<close> such that each of the
  \<open>days + 1\<close> dates is a valid Date, getPriceHistory returns, and the history it returns
  has exactly \<open>days + 1\<close> samples.
\<close>

theorem history_length:
  assumes "0 \<le> days" and "\<forall>i. 0 \<le> i \<and> i \<le> days \<longrightarrow> iterationDate h i \<noteq> None"
  shows "\<exists>r. getPriceHistory h c (Some days) = Inr r \<and> int (length (history r)) = days + 1"
proof -
  from getPriceHistory_returns [OF assms(2)] obtain r
    where r: "getPriceHistory h c (Some days) = Inr r" by blast
  from getPriceHistory_Inr [OF r] assms(1) have "int (length (history r)) = days + 1"
    by simp
  with r show ?thesis by blast
qed

theorem history_length_witness:
  "\<exists>r. getPriceHistory (hostWith (cycle [1 / 2]) 1711927800000 utcZone) ''Maize'' (Some 2) = Inr r \<and>
     int (length (history r)) = 2 + 1"
proof -
  have "\<forall>i. 0 \<le> i \<and> i \<le> 2 \<longrightarrow>
          iterationDate (hostWith (cycle [1 / 2]) 1711927800000 utcZone) i \<noteq> None"
    by (simp add: fixed_offset_dates)
  from history_length [OF _ this] show ?thesis by simp
qed

lemma oldest_date_invalid_rejects:
  assumes "0 \<le> days" and "iterationDate h days = None"
  shows "getPriceHistory h c (Some days) = Inl RangeError"
  using assms by (simp add: getPriceHistory_def loop_throws_at_once)







section \<open>The walk\<close>





section \<open>Determinism\<close>

lemma iterationDate_cong:
  assumes "now h1 = now h2" and "LocalTZA h1 = LocalTZA h2"
  shows "iterationDate h1 i = iterationDate h2 i"
  by (simp add: iterationDate_eq UTC_def LocalTime_def assms)

lemma body_cong:
  assumes "now h1 = now h2" and "LocalTZA h1 = LocalTZA h2"
    and "random h1 (drawn s) = random h2 (drawn s)"
    and "random h1 (drawn s + 1) = random h2 (drawn s + 1)"
  shows "body h1 i s = body h2 i s"
  unfolding body_def iterationDate_cong [OF assms(1,2)] assms(3,4) ..

lemma loop_cong:
  assumes "now h1 = now h2" and "LocalTZA h1 = LocalTZA h2"
  shows "(\<forall>k. drawn s \<le> k \<and> k < drawn s + 2 * nat (i + 1) \<longrightarrow> random h1 k = random h2 k) \<Longrightarrow>
         loop h1 i s = loop h2 i s"
  using assms
proof (induction h1 i s rule: loop.induct)
  case (1 h i s)
  show ?case
  proof (cases "i \<ge> 0")
    case False
    then show ?thesis by (simp add: loop.simps)
  next
    case True
    then have n: "nat (i + 1) = Suc (nat i)" by auto
    have b: "body h i s = body h2 i s"
      using "1.prems" by (intro body_cong) (simp_all add: n)
    show ?thesis
    proof (cases "body h i s")
      case (Inl e)
      with b have "body h2 i s = Inl e" by simp
      with Inl True show ?thesis
        unfolding loop.simps [of h i s] loop.simps [of h2 i s] by simp
    next
      case (Inr s1)
      from body_Inr [OF Inr] have d: "drawn s1 = drawn s + 2" by simp
      have "\<forall>k. drawn s1 \<le> k \<and> k < drawn s1 + 2 * nat (i - 1 + 1) \<longrightarrow> random h k = random h2 k"
        using "1.prems"(1) True by (simp add: d n)
      from "1.IH" [OF True Inr this "1.prems"(2,3)]
      have l: "loop h (i - 1) s1 = loop h2 (i - 1) s1" .
      from b Inr have "body h2 i s = Inr s1" by simp
      with Inr True l show ?thesis
        unfolding loop.simps [of h i s] loop.simps [of h2 i s] by simp
    qed
  qed
qed

text \<open>
  C7. getPriceHistory is a function of its arguments, the clock, the time zone and the
  values it draws: two calls with the same crop and days, at the same instant and in the
  same zone, whose random sources agree on the \<open>2 (days + 1) + 1\<close> values a call draws,
  give the same result. Nothing else is read, and nothing is kept from one call to the
  next.
\<close>

theorem same_inputs_same_history:
  assumes "now h1 = now h2" and "LocalTZA h1 = LocalTZA h2"
    and "\<forall>k. k < 2 * nat (days + 1) + 1 \<longrightarrow> random h1 k = random h2 k"
  shows "getPriceHistory h1 c (Some days) = getPriceHistory h2 c (Some days)"
proof -
  have s: "startingPrice h1 = startingPrice h2"
    using assms(3) by (simp add: startingPrice_def)
  let ?s0 = "\<lparr>basePrice = startingPrice h2, hist = [], drawn = 1\<rparr>"
  have "\<forall>k. drawn ?s0 \<le> k \<and> k < drawn ?s0 + 2 * nat (days + 1) \<longrightarrow> random h1 k = random h2 k"
    using assms(3) by simp
  from loop_cong [OF assms(1,2) this] show ?thesis
    by (simp add: getPriceHistory_def s)
qed

theorem same_inputs_same_history_witness:
  "getPriceHistory (hostWith (cycle [1 / 2]) 1711927800000 utcZone) ''Maize'' (Some 1) =
   getPriceHistory (hostWith lateChange 1711927800000 utcZone) ''Maize'' (Some 1)"
proof -
  have "\<forall>k. k < 2 * nat (1 + 1) + 1 \<longrightarrow>
          random (hostWith (cycle [1 / 2]) 1711927800000 utcZone) k =
          random (hostWith lateChange 1711927800000 utcZone) k"
    by (simp add: hostWith_def cycle_def lateChange_def)
  from same_inputs_same_history [OF _ _ this] show ?thesis
    by (simp add: hostWith_def)
qed

section \<open>Fallback of the advice service\<close>

lemma getAIAdvice_never_rejects: "\<exists>r. getAIAdvice h c l = Inr r"
  by (simp add: getAIAdvice_def Let_def newDate_def toISOString_def split: sum.splits)

lemma getAITimingAdvice_never_rejects: "\<exists>r. getAITimingAdvice h = Inr r"
  by (simp add: getAITimingAdvice_def Let_def newDate_def toISOString_def split: sum.splits)

text \<open>
  C8. When the request to the language-model API fails, getAIAdvice does not reject: it
  returns the mock response with the crop and location asked for, the fixed advice
  text, a timestamp and the fallback note. getAITimingAdvice likewise returns the fixed
  recommendation with market indicator WAIT, a timestamp and the note.
\<close>

theorem api_failure_gives_fallback:
  "(post h (adviceRequest h c l) = Inl e \<longrightarrow>
      getAIAdvice h c l =
        Inr \<lparr>a_crop = c, a_location = l, a_advice = mockAdvice c l,
             a_timestamp = now h, a_note = Some fallbackNote\<rparr>) \<and>
   (post h (timingRequest h) = Inl e \<longrightarrow>
      getAITimingAdvice h =
        Inr \<lparr>t_recommendation = mockTiming, t_timestamp = now h,
             t_marketIndicator = ''WAIT'', t_note = Some fallbackNote\<rparr>)"
  by (simp add: getAIAdvice_def getAITimingAdvice_def Let_def newDate_def toISOString_def)

theorem api_failure_gives_fallback_witness:
  "getAIAdvice (hostWith (cycle [9 / 10]) 1711927800000 utcZone) ''Maize'' ''Nakuru'' =
     Inr \<lparr>a_crop = ''Maize'', a_location = ''Nakuru'',
          a_advice = ''Mock advice: For Maize in Nakuru, ensure proper irrigation and soil testing. Consult local agricultural extension services for specific recommendations.'',
          a_timestamp = 1711927800000,
          a_note = Some ''This is a fallback response due to API unavailability''\<rparr> \<and>
   getAITimingAdvice (hostWith (cycle [9 / 10]) 1711927800000 utcZone) =
     Inr \<lparr>t_recommendation = ''Mock timing advice: Current market conditions suggest waiting 2-3 weeks for potentially better prices. Monitor local supply and demand.'',
          t_timestamp = 1711927800000, t_marketIndicator = ''WAIT'',
          t_note = Some ''This is a fallback response due to API unavailability''\<rparr>"
proof -
  let ?h = "hostWith (cycle [9 / 10]) 1711927800000 utcZone"
  have "post ?h (adviceRequest ?h ''Maize'' ''Nakuru'') = Inl (AxiosError ''Network Error'')"
    and "post ?h (timingRequest ?h) = Inl (AxiosError ''Network Error'')"
    by (simp_all add: hostWith_def unreachable_def)
  with api_failure_gives_fallback [of ?h "''Maize''" "''Nakuru''" "AxiosError ''Network Error''"]
  show ?thesis
    by (simp add: mockAdvice_def mockTiming_def fallbackNote_def hostWith_def)
qed

section \<open>Volumes\<close>



section \<open>Negative periods\<close>



end
